theory Spec2Isabelle
  imports Main
begin

section \<open>Python values used by the gateway clients\<close>

text \<open>
  A Python \<open>str\<close> is a sequence of Unicode code points. The clients return strings that
  start with code points beyond ASCII and trim Unicode whitespace, so a string is modelled
  as the list of its code points. \<open>ascii\<close> turns an ASCII literal into such a list.
  A \<open>bytes\<close> value (a line of a streamed body) is an Isabelle \<open>string\<close>.
\<close>

type_synonym ustr = "nat list"

definition ascii :: "string \<Rightarrow> ustr" where
  "ascii s = map of_char s"

text \<open>
  A Python \<open>float\<close> is kept as the value it holds: \<open>Float m e\<close> is \<open>m * 2 ^ e\<close>.
  No operation of the clients computes with one beyond its truth value.
\<close>

datatype pyfloat = Float int int | PosInf | NegInf | NaN

text \<open>
  What \<open>response.json()\<close> and \<open>json.loads\<close> return, and what is sent as the body of a
  request: \<open>None\<close>, \<open>bool\<close>, \<open>int\<close>, \<open>float\<close>, \<open>str\<close>, \<open>list\<close> and \<open>dict\<close> with
  string keys. A dict is the list of its items; \<open>map_of\<close> looks a key up.
\<close>

datatype pyval =
    PNone
  | PBool bool
  | PInt int
  | PFloat pyfloat
  | PStr ustr
  | PList "pyval list"
  | PDict "(ustr \<times> pyval) list"

text \<open>
  The exceptions that occur here, all of them subclasses of \<open>Exception\<close>. \<open>Timeout\<close>
  is \<open>requests.exceptions.Timeout\<close>; \<open>ConnectionError\<close> and \<open>RequestException\<close> are
  the other faults of the transport. An exception carries its text, \<open>str(e)\<close>.
\<close>

datatype exn_class =
    Timeout
  | ConnectionError
  | RequestException
  | JSONDecodeError
  | UnicodeDecodeError
  | AttributeError
  | KeyError
  | TypeError
  | OverflowError

datatype py_exn = Exn exn_class ustr

fun exn_cls :: "py_exn \<Rightarrow> exn_class" where
  "exn_cls (Exn c m) = c"

fun str_exn :: "py_exn \<Rightarrow> ustr" where
  "str_exn (Exn c m) = m"

text \<open>A computation either raises (\<open>Inl\<close>) or returns (\<open>Inr\<close>).\<close>

type_synonym 'a raises = "py_exn + 'a"

definition bind_raises :: "'a raises \<Rightarrow> ('a \<Rightarrow> 'b raises) \<Rightarrow> 'b raises" where
  "bind_raises m f = (case m of Inl e \<Rightarrow> Inl e | Inr v \<Rightarrow> f v)"

text \<open>\<open>try: body except Exception as e: handler\<close>.\<close>

definition try_except :: "'a raises \<Rightarrow> (py_exn \<Rightarrow> 'a raises) \<Rightarrow> 'a raises" where
  "try_except body handler = (case body of Inl e \<Rightarrow> handler e | Inr v \<Rightarrow> Inr v)"

subsection \<open>Built-in operations\<close>

text \<open>The built-in operations raise with the texts of CPython 3.11; the keys looked up
  are the literals of the source. The name of a value's type, as these texts print it:\<close>

fun type_name :: "pyval \<Rightarrow> ustr" where
  "type_name PNone = ascii ''NoneType''"
| "type_name (PBool b) = ascii ''bool''"
| "type_name (PInt i) = ascii ''int''"
| "type_name (PFloat f) = ascii ''float''"
| "type_name (PStr s) = ascii ''str''"
| "type_name (PList xs) = ascii ''list''"
| "type_name (PDict kvs) = ascii ''dict''"

text \<open>The apostrophe that the messages put around names.\<close>

definition apostrophe :: ustr where
  "apostrophe = [0x27]"

definition no_attribute :: "pyval \<Rightarrow> string \<Rightarrow> py_exn" where
  "no_attribute v a =
     Exn AttributeError
       (apostrophe @ type_name v @ apostrophe @ ascii '' object has no attribute ''
        @ apostrophe @ ascii a @ apostrophe)"

text \<open>\<open>d.get(key, default)\<close>: only a dict has the method.\<close>

fun py_get :: "pyval \<Rightarrow> ustr \<Rightarrow> pyval \<Rightarrow> pyval raises" where
  "py_get (PDict kvs) k d = Inr (case map_of kvs k of Some v \<Rightarrow> v | None \<Rightarrow> d)"
| "py_get v k d = Inl (no_attribute v ''get'')"

text \<open>\<open>v[key]\<close> with a string key: a missing key of a dict is a \<open>KeyError\<close>, a string
  or a list takes no string index, and nothing else is subscriptable.\<close>

fun py_getitem :: "pyval \<Rightarrow> ustr \<Rightarrow> pyval raises" where
  "py_getitem (PDict kvs) k =
     (case map_of kvs k of
        Some v \<Rightarrow> Inr v
      | None \<Rightarrow> Inl (Exn KeyError (apostrophe @ k @ apostrophe)))"
| "py_getitem (PStr s) k =
     Inl (Exn TypeError
       (ascii ''string indices must be integers, not '' @ apostrophe @ ascii ''str''
        @ apostrophe))"
| "py_getitem (PList xs) k =
     Inl (Exn TypeError (ascii ''list indices must be integers or slices, not str''))"
| "py_getitem v k =
     Inl (Exn TypeError
       (apostrophe @ type_name v @ apostrophe @ ascii '' object is not subscriptable''))"

text \<open>\<open>for x in v\<close>: the elements of a list, the keys of a dict, the characters of a
  string; nothing else is iterable.\<close>

fun py_iter :: "pyval \<Rightarrow> pyval list raises" where
  "py_iter (PList xs) = Inr xs"
| "py_iter (PDict kvs) = Inr (map (\<lambda>kv. PStr (fst kv)) kvs)"
| "py_iter (PStr s) = Inr (map (\<lambda>c. PStr [c]) s)"
| "py_iter v =
     Inl (Exn TypeError
       (apostrophe @ type_name v @ apostrophe @ ascii '' object is not iterable''))"

text \<open>The truth value of a value, as \<open>if v:\<close> tests it.\<close>

fun truthy :: "pyval \<Rightarrow> bool" where
  "truthy PNone = False"
| "truthy (PBool b) = b"
| "truthy (PInt i) = (i \<noteq> 0)"
| "truthy (PFloat (Float m e)) = (m \<noteq> 0)"
| "truthy (PFloat f) = True"
| "truthy (PStr s) = (s \<noteq> [])"
| "truthy (PList xs) = (xs \<noteq> [])"
| "truthy (PDict kvs) = (kvs \<noteq> [])"

text \<open>A list comprehension \<open>[f(x) for x in xs]\<close>: the first element on which \<open>f\<close>
  raises ends it.\<close>

fun comprehension :: "('a \<Rightarrow> 'b raises) \<Rightarrow> 'a list \<Rightarrow> 'b list raises" where
  "comprehension f [] = Inr []"
| "comprehension f (x # xs) =
     (case f x of
        Inl e \<Rightarrow> Inl e
      | Inr y \<Rightarrow> (case comprehension f xs of Inl e \<Rightarrow> Inl e | Inr ys \<Rightarrow> Inr (y # ys)))"

text \<open>\<open>str.isspace\<close> of one code point, and \<open>s.strip()\<close>.\<close>

definition isspace :: "nat \<Rightarrow> bool" where
  "isspace c =
     ((0x09 \<le> c \<and> c \<le> 0x0D) \<or> (0x1C \<le> c \<and> c \<le> 0x20) \<or> c = 0x85 \<or> c = 0xA0
      \<or> c = 0x1680 \<or> (0x2000 \<le> c \<and> c \<le> 0x200A) \<or> c = 0x2028 \<or> c = 0x2029
      \<or> c = 0x202F \<or> c = 0x205F \<or> c = 0x3000)"

definition strip :: "ustr \<Rightarrow> ustr" where
  "strip s = rev (dropWhile isspace (rev (dropWhile isspace s)))"

text \<open>\<open>v.strip()\<close> on any value: only a string has the method.\<close>

fun py_strip :: "pyval \<Rightarrow> ustr raises" where
  "py_strip (PStr s) = Inr (strip s)"
| "py_strip v = Inl (no_attribute v ''strip'')"

text \<open>\<open>s.rstrip('/')\<close>.\<close>

definition rstrip_slash :: "ustr \<Rightarrow> ustr" where
  "rstrip_slash s = rev (dropWhile (\<lambda>c. c = 0x2F) (rev s))"

text \<open>\<open>sep.join(xs)\<close>.\<close>

fun join :: "ustr \<Rightarrow> ustr list \<Rightarrow> ustr" where
  "join sep [] = []"
| "join sep [x] = x"
| "join sep (x # y # ys) = x @ sep @ join sep (y # ys)"

text \<open>\<open>str(n)\<close> of an integer, in decimal.\<close>

function digits :: "nat \<Rightarrow> ustr" where
  "digits n = (if n < 10 then [48 + n] else digits (n div 10) @ [48 + n mod 10])"
  by pat_completeness auto
termination
  by (relation "measure (\<lambda>n. n)") auto

definition str_int :: "int \<Rightarrow> ustr" where
  "str_int i = (if i < 0 then 45 # digits (nat (- i)) else digits (nat i))"

section \<open>The transport\<close>

text \<open>
  \<open>requests.Session\<close> is not code of this repository. A call of \<open>session.get\<close> or
  \<open>session.post\<close> either raises or returns a response, so the session is a function from
  the request a client builds to that outcome. Of a response the clients read the status
  code, the text of the body, what \<open>response.json()\<close> gives (it raises when the body is
  not JSON) and, for a streamed body, the lines of \<open>response.iter_lines()\<close>: the lines
  that arrive, and the fault that ends the stream if one does.
\<close>

datatype http_method = GET | POST

record request =
  http_method :: http_method
  url :: ustr
  json_body :: "pyval option"
  timeout :: "nat option"
  stream :: bool

record response =
  status_code :: int
  text_of :: ustr
  json :: "pyval raises"
  iter_lines :: "string list \<times> py_exn option"

type_synonym session = "request \<Rightarrow> response raises"

section \<open>DeepSeekAPI (deepseek-python-mobile.py)\<close>

record DeepSeekAPI =
  base_url :: ustr
  model_name :: ustr
  is_connected :: bool

definition DeepSeekAPI_init :: "ustr \<Rightarrow> DeepSeekAPI" where
  "DeepSeekAPI_init b =
     \<lparr>base_url = b, model_name = ascii ''deepseek-r1'', is_connected = False\<rparr>"

text \<open>
  \<open>check_connection\<close> returns the object as the call leaves it and the value returned:
  \<open>Some b\<close> is the boolean \<open>b\<close>, \<open>None\<close> is Python's \<open>None\<close>, which a call returns
  when it reaches the end of the body without a \<open>return\<close>. The only assignments of the
  \<open>try\<close> body are its last statement, so the handler starts from the object as it was
  at the call.
\<close>

definition DeepSeekAPI_tags_request :: "DeepSeekAPI \<Rightarrow> request" where
  "DeepSeekAPI_tags_request self =
     \<lparr>http_method = GET, url = base_url self @ ascii ''/api/tags'',
      json_body = None, timeout = Some 5, stream = False\<rparr>"

text \<open>\<open>models = response.json().get('models', [])\<close> and
  \<open>model_names = [model['name'] for model in models]\<close>.\<close>

definition model_names :: "response \<Rightarrow> pyval list raises" where
  "model_names response =
     bind_raises (json response) (\<lambda>body.
     bind_raises (py_get body (ascii ''models'') (PList [])) (\<lambda>models.
     bind_raises (py_iter models) (\<lambda>ms.
     comprehension (\<lambda>model. py_getitem model (ascii ''name'')) ms)))"

definition DeepSeekAPI_check_connection ::
  "DeepSeekAPI \<Rightarrow> session \<Rightarrow> (DeepSeekAPI \<times> bool option) raises" where
  "DeepSeekAPI_check_connection self session =
     try_except
       (bind_raises (session (DeepSeekAPI_tags_request self))
          (\<lambda>response.
             if status_code response = 200 then
               bind_raises (model_names response) (\<lambda>names.
                 let c = (PStr (model_name self) \<in> set names)
                 in Inr (self\<lparr>is_connected := c\<rparr>, Some c))
             else Inr (self, None)))
       (\<lambda>e. Inr (self\<lparr>is_connected := False\<rparr>, Some False))"

text \<open>
  A message of the conversation history, as \<open>ChatScreen.add_message\<close> stores it: a dict
  with the keys \<open>role\<close>, \<open>content\<close> and \<open>timestamp\<close>, all strings.
\<close>

record message =
  role :: ustr
  content :: ustr
  timestamp :: ustr

definition labelled :: "message \<Rightarrow> ustr" where
  "labelled msg =
     (if role msg = ascii ''user'' then ascii ''Human: '' @ content msg
      else ascii ''Assistant: '' @ content msg)"

text \<open>\<open>context[-10:]\<close>.\<close>

definition last10 :: "'a list \<Rightarrow> 'a list" where
  "last10 xs = drop (length xs - 10) xs"

text \<open>The prompt that \<open>generate_response\<close> sends; \<open>context\<close> is \<open>None\<close> by default,
  and an empty list is as false as \<open>None\<close>.\<close>

definition full_prompt :: "ustr \<Rightarrow> message list option \<Rightarrow> ustr" where
  "full_prompt prompt context =
     (case context of
        None \<Rightarrow> prompt
      | Some ctx \<Rightarrow>
          if ctx = [] then prompt
          else join [0x0A] (map labelled (last10 ctx))
               @ [0x0A] @ ascii ''Human: '' @ prompt @ [0x0A] @ ascii ''Assistant:'')"

definition generate_payload :: "DeepSeekAPI \<Rightarrow> ustr \<Rightarrow> message list option \<Rightarrow> pyval" where
  "generate_payload self prompt context =
     PDict [(ascii ''model'', PStr (model_name self)),
            (ascii ''prompt'', PStr (full_prompt prompt context)),
            (ascii ''stream'', PBool False),
            (ascii ''options'',
               PDict [(ascii ''temperature'', PFloat (Float 6305039478318694 (- 53))),
                      (ascii ''top_p'', PFloat (Float 8106479329266893 (- 53))),
                      (ascii ''max_tokens'', PInt 2000)])]"

definition DeepSeekAPI_generate_request ::
  "DeepSeekAPI \<Rightarrow> ustr \<Rightarrow> message list option \<Rightarrow> request" where
  "DeepSeekAPI_generate_request self prompt context =
     \<lparr>http_method = POST, url = base_url self @ ascii ''/api/generate'',
      json_body = Some (generate_payload self prompt context),
      timeout = Some 30, stream = False\<rparr>"

definition DeepSeekAPI_generate_response ::
  "DeepSeekAPI \<Rightarrow> ustr \<Rightarrow> message list option \<Rightarrow> session \<Rightarrow> ustr raises" where
  "DeepSeekAPI_generate_response self prompt context session =
     try_except
       (bind_raises
          (session (DeepSeekAPI_generate_request self prompt context))
          (\<lambda>response.
             if status_code response = 200 then
               bind_raises (json response) (\<lambda>result.
               bind_raises (py_get result (ascii ''response'') (PStr [])) (\<lambda>r.
               py_strip r))
             else Inr (ascii ''Error: HTTP '' @ str_int (status_code response))))
       (\<lambda>e. Inr (ascii ''Error generating response: '' @ str_exn e))"

section \<open>OllamaClient (src/api/ollama_client.py in github\_project\_structure.py)\<close>

text \<open>
  The calls of \<open>logger\<close> return nothing and change no value the methods compute with, so
  they are left out, with two exceptions: the expression logged after a generation
  divides the \<open>eval_duration\<close> field by \<open>1e9\<close>, which can raise, and the statuses that
  \<open>pull_model\<close> logs are its progress events.
\<close>

record OllamaClient =
  oc_base_url :: ustr
  oc_model :: ustr

definition OllamaClient_init :: "ustr \<Rightarrow> ustr \<Rightarrow> OllamaClient" where
  "OllamaClient_init b m = \<lparr>oc_base_url = rstrip_slash b, oc_model = m\<rparr>"

text \<open>No method of the class assigns to an attribute of \<open>self\<close>; \<open>check_connection\<close>
  returns the object with its value all the same, since its effect on the object is under
  examination.\<close>

definition OllamaClient_tags_request :: "OllamaClient \<Rightarrow> nat option \<Rightarrow> request" where
  "OllamaClient_tags_request self seconds =
     \<lparr>http_method = GET, url = oc_base_url self @ ascii ''/api/tags'',
      json_body = None, timeout = seconds, stream = False\<rparr>"

definition OllamaClient_check_connection ::
  "OllamaClient \<Rightarrow> session \<Rightarrow> (OllamaClient \<times> bool) raises" where
  "OllamaClient_check_connection self session =
     try_except
       (bind_raises
          (session (OllamaClient_tags_request self (Some 5)))
          (\<lambda>response. Inr (self, status_code response = 200)))
       (\<lambda>e. Inr (self, False))"

text \<open>\<open>list_models\<close> and \<open>get_model_info\<close> return the parsed body, or \<open>None\<close>.\<close>

definition list_models :: "OllamaClient \<Rightarrow> session \<Rightarrow> pyval raises" where
  "list_models self session =
     try_except
       (bind_raises
          (session (OllamaClient_tags_request self None))
          (\<lambda>response.
             if status_code response = 200 then json response else Inr PNone))
       (\<lambda>e. Inr PNone)"

text \<open>\<open>model_name or self.model\<close>: \<open>None\<close> and the empty string are false.\<close>

definition name_or_model :: "ustr option \<Rightarrow> OllamaClient \<Rightarrow> ustr" where
  "name_or_model name self =
     (case name of
        None \<Rightarrow> oc_model self
      | Some n \<Rightarrow> if n = [] then oc_model self else n)"

definition show_request :: "OllamaClient \<Rightarrow> ustr option \<Rightarrow> request" where
  "show_request self name =
     \<lparr>http_method = POST, url = oc_base_url self @ ascii ''/api/show'',
      json_body = Some (PDict [(ascii ''name'', PStr (name_or_model name self))]),
      timeout = None, stream = False\<rparr>"

definition get_model_info :: "OllamaClient \<Rightarrow> ustr option \<Rightarrow> session \<Rightarrow> pyval raises" where
  "get_model_info self name session =
     try_except
       (bind_raises
          (session (show_request self name))
          (\<lambda>response.
             if status_code response = 200 then json response else Inr PNone))
       (\<lambda>e. Inr PNone)"

subsection \<open>pull\_model\<close>

text \<open>
  \<open>json.loads\<close> is a parameter. The loop over the lines of the body gives the statuses
  logged, in order, and the exception that left the loop, if one did: an empty line is
  passed over; the inner \<open>try\<close> covers \<open>json.loads(line)\<close>, \<open>data.get('status')\<close> and
  the logging of \<open>data['status']\<close>, and its handler, for \<open>json.JSONDecodeError\<close> only,
  goes on with the next line.
\<close>

definition status_of_line :: "(string \<Rightarrow> pyval raises) \<Rightarrow> string \<Rightarrow> pyval list raises" where
  "status_of_line loads line =
     bind_raises (loads line) (\<lambda>data.
     bind_raises (py_get data (ascii ''status'') PNone) (\<lambda>s.
       if truthy s then bind_raises (py_getitem data (ascii ''status'')) (\<lambda>v. Inr [v])
       else Inr []))"

fun process_lines ::
  "(string \<Rightarrow> pyval raises) \<Rightarrow> string list \<Rightarrow> pyval list \<times> py_exn option" where
  "process_lines loads [] = ([], None)"
| "process_lines loads (line # rest) =
     (if line = [] then process_lines loads rest
      else
        (case status_of_line loads line of
           Inl e \<Rightarrow>
             if exn_cls e = JSONDecodeError then process_lines loads rest
             else ([], Some e)
         | Inr logged \<Rightarrow>
             (case process_lines loads rest of (later, r) \<Rightarrow> (logged @ later, r))))"

text \<open>\<open>for line in response.iter_lines(): ...\<close>, then \<open>return True\<close>: the loop ends by
  an exception of its body, by the fault that ends the stream, or with the last line.\<close>

definition pull_stream ::
  "(string \<Rightarrow> pyval raises) \<Rightarrow> response \<Rightarrow> pyval list \<times> bool raises" where
  "pull_stream loads response =
     (case process_lines loads (fst (iter_lines response)) of
        (logged, Some e) \<Rightarrow> (logged, Inl e)
      | (logged, None) \<Rightarrow>
          (case snd (iter_lines response) of
             Some e \<Rightarrow> (logged, Inl e)
           | None \<Rightarrow> (logged, Inr True)))"

definition pull_request :: "OllamaClient \<Rightarrow> ustr option \<Rightarrow> request" where
  "pull_request self name =
     \<lparr>http_method = POST, url = oc_base_url self @ ascii ''/api/pull'',
      json_body = Some (PDict [(ascii ''name'', PStr (name_or_model name self))]),
      timeout = Some 600, stream = True\<rparr>"

text \<open>\<open>pull_model\<close> gives the statuses logged and the value returned.\<close>

definition pull_model ::
  "OllamaClient \<Rightarrow> ustr option \<Rightarrow> (string \<Rightarrow> pyval raises) \<Rightarrow> session
     \<Rightarrow> pyval list \<times> bool raises" where
  "pull_model self name loads session =
     (case (case session (pull_request self name) of
              Inl e \<Rightarrow> ([], Inl e)
            | Inr response \<Rightarrow>
                if status_code response = 200 then pull_stream loads response
                else ([], Inr False)) of
        (logged, body) \<Rightarrow> (logged, try_except body (\<lambda>e. Inr False)))"

subsection \<open>generate\_response and chat\<close>

text \<open>\<open>kwargs.get(key, default)\<close>; the keyword arguments are a dict.\<close>

definition kwargs_get :: "(ustr \<times> pyval) list \<Rightarrow> string \<Rightarrow> pyval \<Rightarrow> pyval" where
  "kwargs_get kwargs k d = (case map_of kwargs (ascii k) of Some v \<Rightarrow> v | None \<Rightarrow> d)"

text \<open>\<open>key in v\<close> for a string key: a key of a dict, an element of a list, a substring of
  a string.\<close>

fun py_in :: "ustr \<Rightarrow> pyval \<Rightarrow> bool raises" where
  "py_in k (PDict kvs) = Inr (map_of kvs k \<noteq> None)"
| "py_in k (PList xs) = Inr (PStr k \<in> set xs)"
| "py_in k (PStr s) =
     Inr (list_ex (\<lambda>i. take (length k) (drop i s) = k) [0..<Suc (length s)])"
| "py_in k v =
     Inl (Exn TypeError
       (ascii ''argument of type '' @ apostrophe @ type_name v @ apostrophe
        @ ascii '' is not iterable''))"

text \<open>\<open>v / 1e9\<close>: an \<open>int\<close> is converted to a \<open>float\<close> first, which fails from
  \<open>2 ^ 1024 - 2 ^ 970\<close> on; a \<open>bool\<close> is an \<open>int\<close>; no other type divides. The quotient
  is only logged.\<close>

fun div_1e9 :: "pyval \<Rightarrow> unit raises" where
  "div_1e9 (PInt i) =
     (if 2 ^ 1024 - 2 ^ 970 \<le> \<bar>i\<bar>
      then Inl (Exn OverflowError (ascii ''int too large to convert to float''))
      else Inr ())"
| "div_1e9 (PBool b) = Inr ()"
| "div_1e9 (PFloat f) = Inr ()"
| "div_1e9 v =
     Inl (Exn TypeError
       (ascii ''unsupported operand type(s) for /: '' @ apostrophe @ type_name v @ apostrophe
        @ ascii '' and '' @ apostrophe @ ascii ''float'' @ apostrophe))"

definition generate_params :: "OllamaClient \<Rightarrow> ustr \<Rightarrow> (ustr \<times> pyval) list \<Rightarrow> pyval" where
  "generate_params self prompt kwargs =
     PDict [(ascii ''model'', PStr (oc_model self)),
            (ascii ''prompt'', PStr prompt),
            (ascii ''stream'', PBool False),
            (ascii ''options'',
               PDict [(ascii ''temperature'',
                         kwargs_get kwargs ''temperature'' (PFloat (Float 6305039478318694 (- 53)))),
                      (ascii ''top_p'',
                         kwargs_get kwargs ''top_p'' (PFloat (Float 8106479329266893 (- 53)))),
                      (ascii ''max_tokens'', kwargs_get kwargs ''max_tokens'' (PInt 2048)),
                      (ascii ''stop'', kwargs_get kwargs ''stop'' (PList []))])]"

definition OllamaClient_generate_request ::
  "OllamaClient \<Rightarrow> ustr \<Rightarrow> (ustr \<times> pyval) list \<Rightarrow> request" where
  "OllamaClient_generate_request self prompt kwargs =
     \<lparr>http_method = POST, url = oc_base_url self @ ascii ''/api/generate'',
      json_body = Some (generate_params self prompt kwargs),
      timeout = Some 120, stream = False\<rparr>"

text \<open>The three messages of a failed generation begin with U+274C, U+23F1 U+FE0F and
  U+1F50C.\<close>

definition generation_failed :: "response \<Rightarrow> ustr" where
  "generation_failed response =
     [0x274C] @ ascii '' Error: Generation failed: '' @ str_int (status_code response)
     @ ascii '' - '' @ text_of response"

definition request_timed_out :: ustr where
  "request_timed_out =
     [0x23F1, 0xFE0F]
     @ ascii '' Request timed out. The model might be processing a complex query.''"

definition connection_error :: "py_exn \<Rightarrow> ustr" where
  "connection_error e = [0x1F50C] @ ascii '' Connection error: '' @ str_exn e"

text \<open>The handlers of \<open>generate_response\<close> are tried in order:
  \<open>except requests.exceptions.Timeout\<close>, then \<open>except Exception\<close>.\<close>

definition OllamaClient_generate_response ::
  "OllamaClient \<Rightarrow> ustr \<Rightarrow> (ustr \<times> pyval) list \<Rightarrow> session \<Rightarrow> pyval raises" where
  "OllamaClient_generate_response self prompt kwargs session =
     try_except
       (bind_raises
          (session (OllamaClient_generate_request self prompt kwargs))
          (\<lambda>response.
             if status_code response = 200 then
               bind_raises (json response) (\<lambda>result.
               bind_raises (py_get result (ascii ''response'')
                              (PStr (ascii ''No response generated''))) (\<lambda>ai_response.
               bind_raises (py_in (ascii ''eval_duration'') result) (\<lambda>present.
               bind_raises
                 (if present then
                    bind_raises (py_getitem result (ascii ''eval_duration'')) div_1e9
                  else Inr ())
                 (\<lambda>u. Inr ai_response))))
             else Inr (PStr (generation_failed response))))
       (\<lambda>e. if exn_cls e = Timeout then Inr (PStr request_timed_out)
            else Inr (PStr (connection_error e)))"

definition chat_params :: "OllamaClient \<Rightarrow> pyval \<Rightarrow> (ustr \<times> pyval) list \<Rightarrow> pyval" where
  "chat_params self messages kwargs =
     PDict [(ascii ''model'', PStr (oc_model self)),
            (ascii ''messages'', messages),
            (ascii ''stream'', PBool False),
            (ascii ''options'',
               PDict [(ascii ''temperature'',
                         kwargs_get kwargs ''temperature'' (PFloat (Float 6305039478318694 (- 53)))),
                      (ascii ''top_p'',
                         kwargs_get kwargs ''top_p'' (PFloat (Float 8106479329266893 (- 53)))),
                      (ascii ''max_tokens'', kwargs_get kwargs ''max_tokens'' (PInt 2048))])]"

definition chat_request :: "OllamaClient \<Rightarrow> pyval \<Rightarrow> (ustr \<times> pyval) list \<Rightarrow> request" where
  "chat_request self messages kwargs =
     \<lparr>http_method = POST, url = oc_base_url self @ ascii ''/api/chat'',
      json_body = Some (chat_params self messages kwargs),
      timeout = Some 120, stream = False\<rparr>"

definition chat_error :: "response \<Rightarrow> ustr" where
  "chat_error response =
     [0x274C] @ ascii '' Chat error: '' @ str_int (status_code response)
     @ ascii '' - '' @ text_of response"

definition chat_connection_error :: "py_exn \<Rightarrow> ustr" where
  "chat_connection_error e = [0x1F50C] @ ascii '' Chat connection error: '' @ str_exn e"

definition chat ::
  "OllamaClient \<Rightarrow> pyval \<Rightarrow> (ustr \<times> pyval) list \<Rightarrow> session \<Rightarrow> pyval raises" where
  "chat self messages kwargs session =
     try_except
       (bind_raises
          (session (chat_request self messages kwargs))
          (\<lambda>response.
             if status_code response = 200 then
               bind_raises (json response) (\<lambda>result.
               bind_raises (py_get result (ascii ''message'') (PDict [])) (\<lambda>m.
               py_get m (ascii ''content'') (PStr (ascii ''No response generated''))))
             else Inr (PStr (chat_error response))))
       (\<lambda>e. Inr (PStr (chat_connection_error e)))"

section \<open>Shapes of a reply\<close>

text \<open>The optional duration of a generation: the body has no \<open>eval_duration\<close>, or one
  that divides by \<open>1e9\<close>.\<close>

definition duration_logs :: "(ustr \<times> pyval) list \<Rightarrow> bool" where
  "duration_logs kvs =
     (case map_of kvs (ascii ''eval_duration'') of
        None \<Rightarrow> True
      | Some d \<Rightarrow> div_1e9 d = Inr ())"

text \<open>A chat body without \<open>message.content\<close>: no \<open>message\<close>, or a \<open>message\<close> that is
  a dict without \<open>content\<close>.\<close>

definition lacks_content :: "(ustr \<times> pyval) list \<Rightarrow> bool" where
  "lacks_content kvs =
     (case map_of kvs (ascii ''message'') of
        None \<Rightarrow> True
      | Some (PDict m) \<Rightarrow> map_of m (ascii ''content'') = None
      | Some v \<Rightarrow> False)"

text \<open>An entry of the model list of \<open>/api/tags\<close>: a dict with a \<open>name\<close> and any
  further fields.\<close>

definition model_entry :: "ustr \<times> (ustr \<times> pyval) list \<Rightarrow> pyval" where
  "model_entry e = PDict ((ascii ''name'', PStr (fst e)) # snd e)"

section \<open>Sample inputs\<close>

text \<open>The clients with their default settings, sessions that answer every request with
  one response or one fault, canned responses, a conversation of eleven messages, and a
  \<open>json.loads\<close> that knows three lines.\<close>

definition local_api :: DeepSeekAPI where
  "local_api = DeepSeekAPI_init (ascii ''http://localhost:11434'')"

definition local_client :: OllamaClient where
  "local_client = OllamaClient_init (ascii ''http://localhost:11434'') (ascii ''deepseek-r1'')"

definition replies :: "response \<Rightarrow> session" where
  "replies r req = Inr r"

definition fails :: "py_exn \<Rightarrow> session" where
  "fails e req = Inl e"

definition canned :: "int \<Rightarrow> pyval raises \<Rightarrow> response" where
  "canned status body =
     \<lparr>status_code = status, text_of = [], json = body, iter_lines = ([], None)\<rparr>"

definition streamed :: "int \<Rightarrow> string list \<Rightarrow> response" where
  "streamed status ls =
     \<lparr>status_code = status, text_of = [],
      json = Inl (Exn JSONDecodeError (ascii ''Extra data'')), iter_lines = (ls, None)\<rparr>"

definition internal_server_error :: response where
  "internal_server_error =
     \<lparr>status_code = 500, text_of = ascii ''Internal Server Error'',
      json = Inl (Exn JSONDecodeError (ascii ''Expecting value'')),
      iter_lines = ([], None)\<rparr>"

definition hi_there :: response where
  "hi_there = canned 200 (Inr (PDict [(ascii ''response'', PStr (ascii '' Hi there ''))]))"

definition empty_object :: response where
  "empty_object = canned 200 (Inr (PDict []))"

definition no_response_generated :: response where
  "no_response_generated =
     canned 200 (Inr (PDict [(ascii ''response'', PStr (ascii ''No response generated''))]))"

definition tags_of :: "ustr list \<Rightarrow> response" where
  "tags_of ns =
     canned 200 (Inr (PDict [(ascii ''models'', PList (map (\<lambda>n. model_entry (n, [])) ns))]))"

definition read_timed_out :: py_exn where
  "read_timed_out = Exn Timeout (ascii ''Read timed out.'')"

definition connection_refused :: py_exn where
  "connection_refused = Exn ConnectionError (ascii ''Connection refused'')"

definition hello_messages :: pyval where
  "hello_messages =
     PList [PDict [(ascii ''role'', PStr (ascii ''user'')),
                   (ascii ''content'', PStr (ascii ''hello''))]]"



definition sample_loads :: "string \<Rightarrow> pyval raises" where
  \<open>sample_loads line =
     (if line = ''{"status":"pulling manifest"}'' then
        Inr (PDict [(ascii ''status'', PStr (ascii ''pulling manifest''))])
      else if line = ''{"status":"success"}'' then
        Inr (PDict [(ascii ''status'', PStr (ascii ''success''))])
      else if line = ''null'' then Inr PNone
      else Inl (Exn JSONDecodeError (ascii ''Expecting value'')))\<close>

definition three_lines :: "string list" where
  \<open>three_lines = [''{"status":"pulling manifest"}'', ''garbage'', ''{"status":"success"}'']\<close>

definition two_lines :: "string list" where
  \<open>two_lines = [''{"status":"pulling manifest"}'', ''{"status":"success"}'']\<close>

definition lines_with_null :: "string list" where
  \<open>lines_with_null = [''{"status":"pulling manifest"}'', ''null'', ''{"status":"success"}'']\<close>

section \<open>Properties\<close>

subsection \<open>Facts shared by the claims\<close>

lemma try_except_returns:
  "(\<And>e. \<exists>v. handler e = Inr v) \<Longrightarrow> \<exists>v. try_except body handler = Inr v"
  by (cases body) (simp_all add: try_except_def)

lemma pull_model_returns: "\<exists>v. snd (pull_model c n loads session) = Inr v"
  unfolding pull_model_def
  by (auto split: prod.splits intro!: try_except_returns)

lemma OllamaClient_generate_200:
  assumes "session (OllamaClient_generate_request c q kw) = Inr r" and "status_code r = 200"
    and "json r = Inr (PDict kvs)" and "duration_logs kvs"
  shows "OllamaClient_generate_response c q kw session
         = Inr (case map_of kvs (ascii ''response'') of
                  Some v \<Rightarrow> v
                | None \<Rightarrow> PStr (ascii ''No response generated''))"
  using assms
  by (auto simp: OllamaClient_generate_response_def try_except_def bind_raises_def
        duration_logs_def split: option.splits)

lemma DeepSeekAPI_generate_200:
  assumes "session (DeepSeekAPI_generate_request a p ctx) = Inr r" and "status_code r = 200"
    and "json r = Inr (PDict kvs)"
  shows "DeepSeekAPI_generate_response a p ctx session
         = try_except
             (py_strip (case map_of kvs (ascii ''response'') of Some v \<Rightarrow> v | None \<Rightarrow> PStr []))
             (\<lambda>e. Inr (ascii ''Error generating response: '' @ str_exn e))"
  using assms
  by (simp add: DeepSeekAPI_generate_response_def bind_raises_def)


lemma first_code_points:
  "hd request_timed_out = 0x23F1" "hd (connection_error e) = 0x1F50C"
  "hd (generation_failed r) = 0x274C"
  by (simp_all add: request_timed_out_def connection_error_def generation_failed_def)

lemma status_of_line_raises:
  "loads l = Inl e \<Longrightarrow> status_of_line loads l = Inl e"
  by (simp add: status_of_line_def bind_raises_def)

lemma process_lines_skips:
  assumes "loads l = Inl e" and "exn_cls e = JSONDecodeError"
  shows "process_lines loads (xs @ l # ys) = process_lines loads (xs @ ys)"
proof (induction xs)
  case Nil
  then show ?case using assms by (simp add: status_of_line_raises)
next
  case (Cons x xs)
  then show ?case by (simp split: sum.splits)
qed

lemma comprehension_names:
  "comprehension (\<lambda>model. py_getitem model (ascii ''name'')) (map model_entry entries)
   = Inr (map (\<lambda>e. PStr (fst e)) entries)"
  by (induction entries) (simp_all add: model_entry_def)

lemma model_names_listed:
  assumes "json r = Inr (PDict kvs)"
    and "map_of kvs (ascii ''models'') = Some (PList (map model_entry entries))"
  shows "model_names r = Inr (map (\<lambda>e. PStr (fst e)) entries)"
  using assms by (simp add: model_names_def bind_raises_def comprehension_names)

subsection \<open>The claims\<close>

text \<open>
  C1. \<open>checkConnection\<close> is to return the boolean false, not merely a false value, when
  the server answers with a status that is not a success. \<open>DeepSeekAPI.check_connection\<close>
  has no \<open>return\<close> for a status other than 200: against a server that answers the
  health check with HTTP 500 it returns \<open>None\<close>, and leaves \<open>is_connected\<close> as it was.
\<close>

theorem DeepSeekAPI_check_connection_http_500:
  "DeepSeekAPI_check_connection local_api (replies internal_server_error)
   = Inr (local_api, None)"
  by (simp add: DeepSeekAPI_check_connection_def try_except_def bind_raises_def replies_def
      internal_server_error_def)

text \<open>
  C2. Whatever the session does with the request, answering with any status and body or
  raising any exception, each operation of the two clients returns a value and raises
  nothing to its caller.
\<close>

theorem gateway_operations_return:
  "(\<exists>v. DeepSeekAPI_check_connection a session = Inr v)
   \<and> (\<exists>v. DeepSeekAPI_generate_response a p ctx session = Inr v)
   \<and> (\<exists>v. OllamaClient_check_connection c session = Inr v)
   \<and> (\<exists>v. list_models c session = Inr v)
   \<and> (\<exists>v. snd (pull_model c n loads session) = Inr v)
   \<and> (\<exists>v. OllamaClient_generate_response c q kw session = Inr v)
   \<and> (\<exists>v. chat c msgs kw session = Inr v)
   \<and> (\<exists>v. get_model_info c n session = Inr v)"
  unfolding DeepSeekAPI_check_connection_def DeepSeekAPI_generate_response_def
    OllamaClient_check_connection_def list_models_def OllamaClient_generate_response_def
    chat_def get_model_info_def
  by (intro conjI try_except_returns pull_model_returns) (auto split: if_splits)



text \<open>
  C4, as stated: a generation answered with HTTP 200 and a body with a \<open>response\<close> field
  returns the field with leading and trailing whitespace trimmed. \<open>OllamaClient\<close> does
  not trim: for the body \<open>{"response": " Hi there "}\<close> it returns the field with its
  two spaces.
\<close>

theorem OllamaClient_generate_response_untrimmed:
  "OllamaClient_generate_response local_client (ascii ''hello'') [] (replies hi_there)
     = Inr (PStr (ascii '' Hi there ''))
   \<and> ascii '' Hi there '' \<noteq> strip (ascii '' Hi there '')"
  by (simp add: OllamaClient_generate_response_def try_except_def bind_raises_def
      replies_def hi_there_def canned_def ascii_def strip_def isspace_def)

text \<open>
  C4, amended. On HTTP 200 with a body whose \<open>response\<close> field is a string,
  \<open>DeepSeekAPI.generate_response\<close> returns that string with leading and trailing
  whitespace trimmed, and \<open>OllamaClient.generate_response\<close> returns it as it is, when the
  body has no \<open>eval_duration\<close> or one that divides by \<open>1e9\<close>.
\<close>

theorem generate_response_text:
  assumes "status_code r = 200" and "json r = Inr (PDict kvs)"
    and "map_of kvs (ascii ''response'') = Some (PStr s)"
  shows "(session (DeepSeekAPI_generate_request a p ctx) = Inr r
            \<longrightarrow> DeepSeekAPI_generate_response a p ctx session = Inr (strip s))
         \<and> (session (OllamaClient_generate_request c q kw) = Inr r \<and> duration_logs kvs
            \<longrightarrow> OllamaClient_generate_response c q kw session = Inr (PStr s))"
  using assms
  by (auto simp: DeepSeekAPI_generate_200 OllamaClient_generate_200 try_except_def)

theorem generate_response_text_witness:
  "DeepSeekAPI_generate_response local_api (ascii ''hello'') None (replies hi_there)
     = Inr (ascii ''Hi there'')
   \<and> OllamaClient_generate_response local_client (ascii ''hello'') [] (replies hi_there)
     = Inr (PStr (ascii '' Hi there ''))"
proof -
  have 1: "status_code hi_there = 200"
    and 2: "json hi_there = Inr (PDict [(ascii ''response'', PStr (ascii '' Hi there ''))])"
    by (simp_all add: hi_there_def canned_def)
  have 3: "map_of [(ascii ''response'', PStr (ascii '' Hi there ''))] (ascii ''response'')
           = Some (PStr (ascii '' Hi there ''))"
    by simp
  have 4: "duration_logs [(ascii ''response'', PStr (ascii '' Hi there ''))]"
    by (simp add: duration_logs_def ascii_def)
  have 5: "strip (ascii '' Hi there '') = ascii ''Hi there''"
    by (simp add: strip_def ascii_def isspace_def)
  show ?thesis
    using generate_response_text [OF 1 2 3, of "replies hi_there" local_api "ascii ''hello''"
        None local_client "ascii ''hello''" "[]"] 4 5
    by (simp add: replies_def)
qed

text \<open>
  C5, as stated: a generation that times out returns a failure of the kind Timeout,
  distinguished from a connection error. \<open>DeepSeekAPI.generate_response\<close> has one
  handler for every exception: a timeout and a connection fault with the same text give
  the same string.
\<close>

theorem DeepSeekAPI_timeout_not_distinguished:
  "DeepSeekAPI_generate_response local_api (ascii ''hello'') None
       (fails (Exn Timeout (ascii ''Read timed out.'')))
   = DeepSeekAPI_generate_response local_api (ascii ''hello'') None
       (fails (Exn ConnectionError (ascii ''Read timed out.'')))"
  by (simp add: DeepSeekAPI_generate_response_def try_except_def bind_raises_def fails_def)

text \<open>
  C5, amended. \<open>OllamaClient.generate_response\<close> returns its timeout message when
  the exchange times out, its connection error message for every other fault and its
  failed generation message for a status other than 200; the timeout message differs
  from both, so a timeout never returns what another fault or a failing status returns.
  \<open>DeepSeekAPI.generate_response\<close> returns \<open>Error generating response:\<close> with the
  text of the exception, for a timeout as for every other fault of the transport.
\<close>

theorem generate_response_timeout:
  "(session (OllamaClient_generate_request c q kw) = Inl e \<and> exn_cls e = Timeout
      \<longrightarrow> OllamaClient_generate_response c q kw session = Inr (PStr request_timed_out))
   \<and> (session (OllamaClient_generate_request c q kw) = Inl e \<and> exn_cls e \<noteq> Timeout
      \<longrightarrow> OllamaClient_generate_response c q kw session = Inr (PStr (connection_error e))
          \<and> connection_error e \<noteq> request_timed_out)
   \<and> (session (OllamaClient_generate_request c q kw) = Inr r \<and> status_code r \<noteq> 200
      \<longrightarrow> OllamaClient_generate_response c q kw session = Inr (PStr (generation_failed r))
          \<and> generation_failed r \<noteq> request_timed_out)
   \<and> (session (OllamaClient_generate_request c q kw) = Inl e \<and> exn_cls e = Timeout
        \<and> (session' (OllamaClient_generate_request c q kw) = Inl e' \<and> exn_cls e' \<noteq> Timeout
            \<or> session' (OllamaClient_generate_request c q kw) = Inr r \<and> status_code r \<noteq> 200)
      \<longrightarrow> OllamaClient_generate_response c q kw session
          \<noteq> OllamaClient_generate_response c q kw session')
   \<and> (session (DeepSeekAPI_generate_request a p ctx) = Inl e
      \<longrightarrow> DeepSeekAPI_generate_response a p ctx session
          = Inr (ascii ''Error generating response: '' @ str_exn e))"
proof -
  have ne1: "connection_error x \<noteq> request_timed_out" for x
  proof
    assume "connection_error x = request_timed_out"
    then have "hd (connection_error x) = hd request_timed_out" by simp
    then show False by (simp add: first_code_points)
  qed
  have ne2: "generation_failed y \<noteq> request_timed_out" for y
  proof
    assume "generation_failed y = request_timed_out"
    then have "hd (generation_failed y) = hd request_timed_out" by simp
    then show False by (simp add: first_code_points)
  qed
  note ne = ne1 ne2
  have t: "OllamaClient_generate_response c q kw s = Inr (PStr request_timed_out)"
    if "s (OllamaClient_generate_request c q kw) = Inl x" "exn_cls x = Timeout" for s x
    using that
    by (simp add: OllamaClient_generate_response_def try_except_def bind_raises_def)
  have f: "OllamaClient_generate_response c q kw s = Inr (PStr (connection_error x))"
    if "s (OllamaClient_generate_request c q kw) = Inl x" "exn_cls x \<noteq> Timeout" for s x
    using that
    by (simp add: OllamaClient_generate_response_def try_except_def bind_raises_def)
  have g: "OllamaClient_generate_response c q kw s = Inr (PStr (generation_failed r))"
    if "s (OllamaClient_generate_request c q kw) = Inr r" "status_code r \<noteq> 200" for s
    using that
    by (simp add: OllamaClient_generate_response_def try_except_def bind_raises_def)
  have d: "DeepSeekAPI_generate_response a p ctx session
          = Inr (ascii ''Error generating response: '' @ str_exn e)"
    if "session (DeepSeekAPI_generate_request a p ctx) = Inl e"
    using that
    by (simp add: DeepSeekAPI_generate_response_def try_except_def bind_raises_def)
  show ?thesis
  proof (intro conjI impI)
    assume "session (OllamaClient_generate_request c q kw) = Inl e \<and> exn_cls e = Timeout"
    then show "OllamaClient_generate_response c q kw session = Inr (PStr request_timed_out)"
      using t by blast
  next
    assume "session (OllamaClient_generate_request c q kw) = Inl e \<and> exn_cls e \<noteq> Timeout"
    then show "OllamaClient_generate_response c q kw session = Inr (PStr (connection_error e))"
      using f by blast
  next
    show "connection_error e \<noteq> request_timed_out" by (rule ne1)
  next
    assume "session (OllamaClient_generate_request c q kw) = Inr r \<and> status_code r \<noteq> 200"
    then show "OllamaClient_generate_response c q kw session
               = Inr (PStr (generation_failed r))"
      using g by blast
  next
    show "generation_failed r \<noteq> request_timed_out" by (rule ne2)
  next
    assume a: "session (OllamaClient_generate_request c q kw) = Inl e \<and> exn_cls e = Timeout
        \<and> (session' (OllamaClient_generate_request c q kw) = Inl e' \<and> exn_cls e' \<noteq> Timeout
            \<or> session' (OllamaClient_generate_request c q kw) = Inr r \<and> status_code r \<noteq> 200)"
    then have 1: "OllamaClient_generate_response c q kw session = Inr (PStr request_timed_out)"
      using t by blast
    from a consider
      (fault) "session' (OllamaClient_generate_request c q kw) = Inl e'" "exn_cls e' \<noteq> Timeout"
      | (status) "session' (OllamaClient_generate_request c q kw) = Inr r" "status_code r \<noteq> 200"
      by blast
    then show "OllamaClient_generate_response c q kw session
               \<noteq> OllamaClient_generate_response c q kw session'"
    proof cases
      case fault
      then have "OllamaClient_generate_response c q kw session'
                 = Inr (PStr (connection_error e'))"
        using f by blast
      with 1 ne1 [of e'] show ?thesis by simp
    next
      case status
      then have "OllamaClient_generate_response c q kw session'
                 = Inr (PStr (generation_failed r))"
        using g by blast
      with 1 ne2 [of r] show ?thesis by simp
    qed
  next
    assume "session (DeepSeekAPI_generate_request a p ctx) = Inl e"
    then show "DeepSeekAPI_generate_response a p ctx session
               = Inr (ascii ''Error generating response: '' @ str_exn e)"
      by (rule d)
  qed
qed

theorem generate_response_timeout_witness:
  "OllamaClient_generate_response local_client (ascii ''hello'') [] (fails read_timed_out)
     = Inr (PStr ([0x23F1, 0xFE0F] @ ascii
         '' Request timed out. The model might be processing a complex query.''))
   \<and> OllamaClient_generate_response local_client (ascii ''hello'') [] (fails connection_refused)
     = Inr (PStr ([0x1F50C] @ ascii '' Connection error: Connection refused''))
   \<and> OllamaClient_generate_response local_client (ascii ''hello'') []
       (replies internal_server_error)
     = Inr (PStr ([0x274C] @ ascii
         '' Error: Generation failed: 500 - Internal Server Error''))
   \<and> OllamaClient_generate_response local_client (ascii ''hello'') [] (fails read_timed_out)
     \<noteq> OllamaClient_generate_response local_client (ascii ''hello'') []
         (fails connection_refused)
   \<and> OllamaClient_generate_response local_client (ascii ''hello'') [] (fails read_timed_out)
     \<noteq> OllamaClient_generate_response local_client (ascii ''hello'') []
         (replies internal_server_error)
   \<and> DeepSeekAPI_generate_response local_api (ascii ''hello'') None (fails read_timed_out)
     = Inr (ascii ''Error generating response: Read timed out.'')"
proof -
  have texts: "request_timed_out = [0x23F1, 0xFE0F] @ ascii
         '' Request timed out. The model might be processing a complex query.''"
    "connection_error connection_refused
       = [0x1F50C] @ ascii '' Connection error: Connection refused''"
    "generation_failed internal_server_error
       = [0x274C] @ ascii '' Error: Generation failed: 500 - Internal Server Error''"
    by (simp_all add: request_timed_out_def connection_error_def generation_failed_def
        connection_refused_def internal_server_error_def str_int_def ascii_def)
  have cls: "exn_cls read_timed_out = Timeout" "exn_cls connection_refused \<noteq> Timeout"
    "status_code internal_server_error \<noteq> 200" "str_exn read_timed_out = ascii ''Read timed out.''"
    by (simp_all add: read_timed_out_def connection_refused_def internal_server_error_def)
  note t = generate_response_timeout [where session = "fails read_timed_out"
      and c = local_client and q = "ascii ''hello''" and kw = "[]" and e = read_timed_out
      and session' = "fails connection_refused" and e' = connection_refused
      and a = local_api and p = "ascii ''hello''" and ctx = None]
  note f = generate_response_timeout [where session = "fails connection_refused"
      and c = local_client and q = "ascii ''hello''" and kw = "[]" and e = connection_refused
      and a = local_api and p = "ascii ''hello''" and ctx = None]
  note g = generate_response_timeout [where session = "replies internal_server_error"
      and c = local_client and q = "ascii ''hello''" and kw = "[]"
      and r = internal_server_error
      and a = local_api and p = "ascii ''hello''" and ctx = None]
  note t' = generate_response_timeout [where session = "fails read_timed_out"
      and c = local_client and q = "ascii ''hello''" and kw = "[]" and e = read_timed_out
      and session' = "replies internal_server_error" and r = internal_server_error
      and a = local_api and p = "ascii ''hello''" and ctx = None]
  have 1: "OllamaClient_generate_response local_client (ascii ''hello'') []
             (fails read_timed_out) = Inr (PStr request_timed_out)"
    and 2: "DeepSeekAPI_generate_response local_api (ascii ''hello'') None
             (fails read_timed_out) = Inr (ascii ''Error generating response: Read timed out.'')"
    using t cls by (simp_all add: fails_def ascii_def)
  have 3: "OllamaClient_generate_response local_client (ascii ''hello'') []
             (fails connection_refused) = Inr (PStr (connection_error connection_refused))"
    using f cls by (simp add: fails_def)
  have 4: "OllamaClient_generate_response local_client (ascii ''hello'') []
             (replies internal_server_error)
           = Inr (PStr (generation_failed internal_server_error))"
    using g cls by (simp add: replies_def)
  have 5: "OllamaClient_generate_response local_client (ascii ''hello'') []
             (fails read_timed_out)
           \<noteq> OllamaClient_generate_response local_client (ascii ''hello'') []
               (fails connection_refused)"
    using t cls by (auto simp: fails_def)
  have 6: "OllamaClient_generate_response local_client (ascii ''hello'') []
             (fails read_timed_out)
           \<noteq> OllamaClient_generate_response local_client (ascii ''hello'') []
               (replies internal_server_error)"
    using t' cls by (auto simp: fails_def replies_def)
  show ?thesis
    unfolding texts [symmetric] using 1 2 3 4 5 6 by blast
qed

text \<open>
  C6. \<open>chat\<close> is to classify a timeout as Timeout, as \<open>generate_response\<close> does.
  \<open>chat\<close> has no handler for \<open>requests.exceptions.Timeout\<close>: for a request that
  times out it returns its connection error message, where \<open>generate_response\<close> of the
  same client returns the timeout message.
\<close>

theorem chat_timeout_is_connection_error:
  "chat local_client hello_messages [] (fails read_timed_out)
     = Inr (PStr (chat_connection_error read_timed_out))
   \<and> OllamaClient_generate_response local_client (ascii ''hello'') [] (fails read_timed_out)
     = Inr (PStr request_timed_out)"
  by (simp add: chat_def OllamaClient_generate_response_def try_except_def bind_raises_def
      fails_def read_timed_out_def)

text \<open>
  C7, as stated: HTTP 200 with a body that lacks the expected field gives a failure,
  not a success. For the empty object \<open>OllamaClient.generate_response\<close> returns what it
  returns for a body whose \<open>response\<close> is the text \<open>No response generated\<close>.
\<close>

theorem missing_response_reads_as_text:
  "OllamaClient_generate_response local_client (ascii ''hello'') [] (replies empty_object)
   = OllamaClient_generate_response local_client (ascii ''hello'') []
       (replies no_response_generated)"
  by (simp add: OllamaClient_generate_response_def try_except_def bind_raises_def replies_def
      empty_object_def no_response_generated_def canned_def ascii_def)

text \<open>
  C7, amended. On HTTP 200 with a JSON object that lacks the expected field, the value
  returned is a default text and no failure: \<open>No response generated\<close> from
  \<open>OllamaClient.generate_response\<close> (\<open>response\<close> missing, the duration absent or
  dividing by \<open>1e9\<close>) and from \<open>chat\<close> (\<open>message\<close> or its \<open>content\<close> missing), the
  empty string from \<open>DeepSeekAPI.generate_response\<close>.
\<close>

theorem missing_field_defaults:
  assumes "status_code r = 200" and "json r = Inr (PDict kvs)"
  shows "(session (OllamaClient_generate_request c q kw) = Inr r
            \<and> map_of kvs (ascii ''response'') = None \<and> duration_logs kvs
          \<longrightarrow> OllamaClient_generate_response c q kw session
              = Inr (PStr (ascii ''No response generated'')))
         \<and> (session (chat_request c msgs kw) = Inr r \<and> lacks_content kvs
          \<longrightarrow> chat c msgs kw session = Inr (PStr (ascii ''No response generated'')))
         \<and> (session (DeepSeekAPI_generate_request a p ctx) = Inr r
            \<and> map_of kvs (ascii ''response'') = None
          \<longrightarrow> DeepSeekAPI_generate_response a p ctx session = Inr [])"
proof (intro conjI impI)
  assume "session (OllamaClient_generate_request c q kw) = Inr r
            \<and> map_of kvs (ascii ''response'') = None \<and> duration_logs kvs"
  then show "OllamaClient_generate_response c q kw session
              = Inr (PStr (ascii ''No response generated''))"
    using assms by (simp add: OllamaClient_generate_200)
next
  assume "session (chat_request c msgs kw) = Inr r \<and> lacks_content kvs"
  then show "chat c msgs kw session = Inr (PStr (ascii ''No response generated''))"
    using assms
    by (auto simp: chat_def try_except_def bind_raises_def lacks_content_def
        split: option.splits pyval.splits)
next
  assume "session (DeepSeekAPI_generate_request a p ctx) = Inr r
            \<and> map_of kvs (ascii ''response'') = None"
  then show "DeepSeekAPI_generate_response a p ctx session = Inr []"
    using assms by (simp add: DeepSeekAPI_generate_200 try_except_def strip_def)
qed

theorem missing_field_defaults_witness:
  "OllamaClient_generate_response local_client (ascii ''hello'') [] (replies empty_object)
     = Inr (PStr (ascii ''No response generated''))
   \<and> chat local_client hello_messages [] (replies empty_object)
     = Inr (PStr (ascii ''No response generated''))
   \<and> DeepSeekAPI_generate_response local_api (ascii ''hello'') None (replies empty_object)
     = Inr []"
proof -
  have 1: "status_code empty_object = 200"
    and 2: "json empty_object = Inr (PDict [])"
    by (simp_all add: empty_object_def canned_def)
  show ?thesis
    using missing_field_defaults [OF 1 2, of "replies empty_object" local_client
        "ascii ''hello''" "[]" hello_messages local_api "ascii ''hello''" None]
    by (simp add: duration_logs_def lacks_content_def replies_def)
qed

text \<open>
  C8, as stated: a malformed status line is skipped without aborting the pull. The
  handler inside the loop is for \<open>json.JSONDecodeError\<close> only: the line \<open>null\<close> is
  JSON and no status object, \<open>data.get\<close> raises on it, and the pull of a body answered
  with HTTP 200 ends there, the later status never logged, and returns false.
\<close>

theorem pull_model_aborted_by_line:
  "pull_model local_client None sample_loads (replies (streamed 200 lines_with_null))
   = ([PStr (ascii ''pulling manifest'')], Inr False)"
  by (simp add: pull_model_def pull_stream_def replies_def streamed_def lines_with_null_def
      sample_loads_def status_of_line_def bind_raises_def try_except_def no_attribute_def
      ascii_def)

text \<open>
  C8, amended. \<open>pull_model\<close> returns true only if the request is answered with HTTP 200
  and the stream ends without a fault; it returns false, with no status logged, when the
  request raises or the status is not 200 (404 among them), and false when a fault ends
  the stream; a line on which \<open>json.loads\<close> raises \<open>json.JSONDecodeError\<close> is skipped:
  the pull logs and returns what it does for the body without that line.
\<close>

theorem pull_model_outcomes:
  "(snd (pull_model c n loads session) = Inr True
      \<longrightarrow> (\<exists>r. session (pull_request c n) = Inr r \<and> status_code r = 200
               \<and> snd (iter_lines r) = None))
   \<and> (session (pull_request c n) = Inl e
      \<longrightarrow> pull_model c n loads session = ([], Inr False))
   \<and> (session (pull_request c n) = Inr r \<and> status_code r \<noteq> 200
      \<longrightarrow> pull_model c n loads session = ([], Inr False))
   \<and> (session (pull_request c n) = Inr r \<and> snd (iter_lines r) = Some e
      \<longrightarrow> snd (pull_model c n loads session) = Inr False)
   \<and> (session (pull_request c n) = Inr r \<and> iter_lines r = (xs @ l # ys, f)
        \<and> session' (pull_request c n) = Inr (r\<lparr>iter_lines := (xs @ ys, f)\<rparr>)
        \<and> loads l = Inl e \<and> exn_cls e = JSONDecodeError
      \<longrightarrow> pull_model c n loads session = pull_model c n loads session')"
proof (intro conjI impI)
  assume "snd (pull_model c n loads session) = Inr True"
  then show "\<exists>r. session (pull_request c n) = Inr r \<and> status_code r = 200
               \<and> snd (iter_lines r) = None"
    by (auto simp: pull_model_def pull_stream_def try_except_def
        split: sum.splits if_splits prod.splits option.splits)
next
  assume "session (pull_request c n) = Inl e"
  then show "pull_model c n loads session = ([], Inr False)"
    by (simp add: pull_model_def try_except_def)
next
  assume "session (pull_request c n) = Inr r \<and> status_code r \<noteq> 200"
  then show "pull_model c n loads session = ([], Inr False)"
    by (simp add: pull_model_def try_except_def)
next
  assume "session (pull_request c n) = Inr r \<and> snd (iter_lines r) = Some e"
  then show "snd (pull_model c n loads session) = Inr False"
    by (auto simp: pull_model_def pull_stream_def try_except_def
        split: prod.splits option.splits)
next
  assume a: "session (pull_request c n) = Inr r \<and> iter_lines r = (xs @ l # ys, f)
        \<and> session' (pull_request c n) = Inr (r\<lparr>iter_lines := (xs @ ys, f)\<rparr>)
        \<and> loads l = Inl e \<and> exn_cls e = JSONDecodeError"
  then have "process_lines loads (xs @ l # ys) = process_lines loads (xs @ ys)"
    by (simp add: process_lines_skips)
  with a show "pull_model c n loads session = pull_model c n loads session'"
    by (clarsimp simp: pull_model_def pull_stream_def)
qed

theorem pull_model_outcomes_witness:
  "pull_model local_client None sample_loads (replies (streamed 200 three_lines))
     = pull_model local_client None sample_loads (replies (streamed 200 two_lines))
   \<and> pull_model local_client None sample_loads (replies (streamed 200 two_lines))
     = ([PStr (ascii ''pulling manifest''), PStr (ascii ''success'')], Inr True)
   \<and> pull_model local_client None sample_loads (replies (streamed 404 two_lines))
     = ([], Inr False)
   \<and> pull_model local_client None sample_loads (fails connection_refused)
     = ([], Inr False)"
proof -
  have skip: "pull_model local_client None sample_loads (replies (streamed 200 three_lines))
              = pull_model local_client None sample_loads (replies (streamed 200 two_lines))"
    using pull_model_outcomes [of local_client None sample_loads
        "replies (streamed 200 three_lines)" "Exn JSONDecodeError (ascii ''Expecting value'')"
        "streamed 200 three_lines" "[hd two_lines]" "''garbage''" "tl two_lines" None
        "replies (streamed 200 two_lines)"]
    by (simp add: replies_def streamed_def sample_loads_def three_lines_def two_lines_def)
  have ok: "pull_model local_client None sample_loads (replies (streamed 200 two_lines))
            = ([PStr (ascii ''pulling manifest''), PStr (ascii ''success'')], Inr True)"
    by (simp add: pull_model_def pull_stream_def replies_def streamed_def sample_loads_def
        two_lines_def status_of_line_def bind_raises_def try_except_def ascii_def)
  have not_found:
    "pull_model local_client None sample_loads (replies (streamed 404 two_lines))
     = ([], Inr False)"
    using pull_model_outcomes [of local_client None sample_loads
        "replies (streamed 404 two_lines)" _ "streamed 404 two_lines"]
    by (simp add: replies_def streamed_def)
  have down: "pull_model local_client None sample_loads (fails connection_refused)
              = ([], Inr False)"
    using pull_model_outcomes [of local_client None sample_loads "fails connection_refused"
        connection_refused]
    by (simp add: fails_def)
  show ?thesis using skip ok not_found down by simp
qed

text \<open>
  C9, as stated: \<open>checkConnection\<close> does not itself change the stored connectivity
  state. \<open>DeepSeekAPI.check_connection\<close> assigns \<open>self.is_connected\<close>: a client that
  is not connected is connected after a check that finds its model listed.
\<close>

theorem DeepSeekAPI_check_connection_sets_is_connected:
  "DeepSeekAPI_check_connection local_api (replies (tags_of [ascii ''deepseek-r1'']))
     = Inr (local_api\<lparr>is_connected := True\<rparr>, Some True)
   \<and> is_connected local_api = False"
  by (simp add: DeepSeekAPI_check_connection_def model_names_def try_except_def
      bind_raises_def replies_def tags_of_def canned_def model_entry_def local_api_def
      DeepSeekAPI_init_def ascii_def)

text \<open>
  C9, amended. \<open>OllamaClient.check_connection\<close> changes nothing of the client.
  \<open>DeepSeekAPI.check_connection\<close> changes no attribute but \<open>is_connected\<close>, in which
  it stores the boolean it returns; when it returns \<open>None\<close>, \<open>is_connected\<close> is as
  before.
\<close>

theorem check_connection_frame:
  "(\<exists>b. OllamaClient_check_connection c session = Inr (c, b))
   \<and> (\<exists>v. DeepSeekAPI_check_connection a session
           = Inr (a\<lparr>is_connected := (case v of None \<Rightarrow> is_connected a | Some b \<Rightarrow> b)\<rparr>, v))"
proof
  show "\<exists>b. OllamaClient_check_connection c session = Inr (c, b)"
    by (cases "session (OllamaClient_tags_request c (Some 5))")
      (auto simp: OllamaClient_check_connection_def try_except_def bind_raises_def)
  show "\<exists>v. DeepSeekAPI_check_connection a session
           = Inr (a\<lparr>is_connected := (case v of None \<Rightarrow> is_connected a | Some b \<Rightarrow> b)\<rparr>, v)"
  proof (cases "session (DeepSeekAPI_tags_request a)")
    case (Inl e)
    then have "DeepSeekAPI_check_connection a session
                = Inr (a\<lparr>is_connected := False\<rparr>, Some False)"
      by (simp add: DeepSeekAPI_check_connection_def try_except_def bind_raises_def)
    then show ?thesis by (intro exI [of _ "Some False"]) simp
  next
    case (Inr r)
    show ?thesis
    proof (cases "status_code r = 200")
      case False
      with Inr have "DeepSeekAPI_check_connection a session = Inr (a, None)"
        by (simp add: DeepSeekAPI_check_connection_def try_except_def bind_raises_def)
      then show ?thesis by (intro exI [of _ None]) simp
    next
      case True
      show ?thesis
      proof (cases "model_names r")
        case (Inl e)
        with Inr True have "DeepSeekAPI_check_connection a session
                = Inr (a\<lparr>is_connected := False\<rparr>, Some False)"
          by (simp add: DeepSeekAPI_check_connection_def try_except_def bind_raises_def)
        then show ?thesis by (intro exI [of _ "Some False"]) simp
      next
        case names: (Inr names)
        with Inr True have "DeepSeekAPI_check_connection a session
                = Inr (a\<lparr>is_connected := (PStr (model_name a) \<in> set names)\<rparr>,
                       Some (PStr (model_name a) \<in> set names))"
          by (simp add: DeepSeekAPI_check_connection_def try_except_def bind_raises_def
              Let_def)
        then show ?thesis
          by (intro exI [of _ "Some (PStr (model_name a) \<in> set names)"]) simp
      qed
    qed
  qed
qed

text \<open>
  C10. When the health check is answered with HTTP 200, \<open>DeepSeekAPI.check_connection\<close>
  returns a boolean, which is true only when the name of the configured model is among
  the names of the model list of the body; for a body that lists models by name, it is
  true exactly when the configured model is one of them, so a server without the model
  reads as not connected.
\<close>

theorem check_connection_model_listed:
  assumes "session (DeepSeekAPI_tags_request a) = Inr r" and "status_code r = 200"
  shows "\<exists>c. DeepSeekAPI_check_connection a session = Inr (a\<lparr>is_connected := c\<rparr>, Some c)
           \<and> (c \<longleftrightarrow> (\<exists>names. model_names r = Inr names \<and> PStr (model_name a) \<in> set names))
           \<and> (json r = Inr (PDict kvs)
                \<and> map_of kvs (ascii ''models'') = Some (PList (map model_entry entries))
              \<longrightarrow> (c \<longleftrightarrow> model_name a \<in> fst ` set entries))"
proof (cases "model_names r")
  case (Inl e)
  with assms have "DeepSeekAPI_check_connection a session
                = Inr (a\<lparr>is_connected := False\<rparr>, Some False)"
    by (simp add: DeepSeekAPI_check_connection_def try_except_def bind_raises_def)
  moreover have "\<not> (json r = Inr (PDict kvs)
                \<and> map_of kvs (ascii ''models'') = Some (PList (map model_entry entries)))"
    using Inl model_names_listed [of r kvs entries] by auto
  ultimately show ?thesis using Inl by (intro exI [of _ False]) auto
next
  case (Inr names)
  let ?c = "PStr (model_name a) \<in> set names"
  from Inr assms have "DeepSeekAPI_check_connection a session
                = Inr (a\<lparr>is_connected := ?c\<rparr>, Some ?c)"
    by (simp add: DeepSeekAPI_check_connection_def try_except_def bind_raises_def Let_def)
  moreover have "json r = Inr (PDict kvs)
                \<and> map_of kvs (ascii ''models'') = Some (PList (map model_entry entries))
              \<longrightarrow> (?c \<longleftrightarrow> model_name a \<in> fst ` set entries)"
    using Inr model_names_listed [of r kvs entries] by auto
  ultimately show ?thesis using Inr by (intro exI [of _ ?c]) auto
qed

theorem check_connection_model_listed_witness:
  "DeepSeekAPI_check_connection local_api (replies (tags_of [ascii ''llama3'']))
     = Inr (local_api\<lparr>is_connected := False\<rparr>, Some False)
   \<and> DeepSeekAPI_check_connection local_api
       (replies (tags_of [ascii ''llama3'', ascii ''deepseek-r1'']))
     = Inr (local_api\<lparr>is_connected := True\<rparr>, Some True)"
proof -
  have 1: "status_code (tags_of ns) = 200" for ns
    by (simp add: tags_of_def canned_def)
  have 2: "json (tags_of ns)
           = Inr (PDict [(ascii ''models'', PList (map model_entry (map (\<lambda>n. (n, [])) ns)))])"
    for ns
    by (simp add: tags_of_def canned_def comp_def)
  have 3: "model_name local_api = ascii ''deepseek-r1''"
    by (simp add: local_api_def DeepSeekAPI_init_def)
  have 4: "replies (tags_of ns) (DeepSeekAPI_tags_request local_api) = Inr (tags_of ns)" for ns
    by (simp add: replies_def)
  show ?thesis
    using check_connection_model_listed [of "replies (tags_of [ascii ''llama3''])" local_api
        "tags_of [ascii ''llama3'']"
        "[(ascii ''models'', PList (map model_entry (map (\<lambda>n. (n, [])) [ascii ''llama3''])))]"
        "map (\<lambda>n. (n, [])) [ascii ''llama3'']"]
      check_connection_model_listed [of
        "replies (tags_of [ascii ''llama3'', ascii ''deepseek-r1''])" local_api
        "tags_of [ascii ''llama3'', ascii ''deepseek-r1'']"
        "[(ascii ''models'', PList (map model_entry
             (map (\<lambda>n. (n, [])) [ascii ''llama3'', ascii ''deepseek-r1''])))]"
        "map (\<lambda>n. (n, [])) [ascii ''llama3'', ascii ''deepseek-r1'']"]
      1 [of "[ascii ''llama3'']"] 1 [of "[ascii ''llama3'', ascii ''deepseek-r1'']"]
      2 [of "[ascii ''llama3'']"] 2 [of "[ascii ''llama3'', ascii ''deepseek-r1'']"]
      3 4 [of "[ascii ''llama3'']"] 4 [of "[ascii ''llama3'', ascii ''deepseek-r1'']"]
    by (auto simp: ascii_def)
qed

end
